theory Spec2Isabelle
  imports Main "HOL-Library.AList"
begin

section \<open>Documents and exceptions\<close>

text \<open>
  A document is a JSON-compatible Python value. A \<open>dict\<close> is kept as the list of its
  items in insertion order; a Python \<open>dict\<close> never holds a key twice, and lookups go
  through \<open>map_of\<close>.
\<close>

datatype json =
    JNull
  | JBool bool
  | JInt int
  | JStr string
  | JList "json list"
  | JDict "(string \<times> json) list"

text \<open>
  The exceptions the modelled code raises. \<open>SchemaError\<close> carries its message and its
  \<open>__cause__\<close> (\<open>raise SchemaError(...) from exc\<close>). \<open>Invalid\<close> stands for a failure
  raised by the schema callable. \<open>NotFoundError\<close>, \<open>NotConnectedError\<close> and
  \<open>ConnectionError\<close> belong to the blob store.
\<close>

datatype exception =
    KeyError string
  | TypeError
  | AttributeError
  | ValueError string
  | AssertionError string
  | Invalid string
  | SchemaError string exception
  | NotFoundError
  | NotConnectedError
  | ConnectionError

fun exception_name :: "exception \<Rightarrow> string" where
  "exception_name (KeyError k) = ''KeyError''"
| "exception_name TypeError = ''TypeError''"
| "exception_name AttributeError = ''AttributeError''"
| "exception_name (ValueError m) = ''ValueError''"
| "exception_name (AssertionError m) = ''AssertionError''"
| "exception_name (Invalid m) = ''Invalid''"
| "exception_name (SchemaError m c) = ''SchemaError''"
| "exception_name NotFoundError = ''NotFoundError''"
| "exception_name NotConnectedError = ''NotConnectedError''"
| "exception_name ConnectionError = ''ConnectionError''"

text \<open>
  \<open>obj[key]\<close> with a string key: a \<open>dict\<close> answers with the value or raises
  \<open>KeyError\<close>; every other JSON value raises \<open>TypeError\<close> (a list or a string wants an
  integer index, \<open>None\<close>, a bool and an int are not subscriptable).
\<close>

fun getitem :: "json \<Rightarrow> string \<Rightarrow> exception + json" where
  "getitem (JDict kvs) k = (case map_of kvs k of None \<Rightarrow> Inl (KeyError k) | Some v \<Rightarrow> Inr v)"
| "getitem JNull k = Inl TypeError"
| "getitem (JBool b) k = Inl TypeError"
| "getitem (JInt i) k = Inl TypeError"
| "getitem (JStr s) k = Inl TypeError"
| "getitem (JList xs) k = Inl TypeError"


section \<open>The blob store behind \<open>CephStore\<close>\<close>

text \<open>
  One handle of the object store per adapter: the result type it was created with, the
  connection options, and whether \<open>connect\<close> has established a session.
\<close>

record CephStore =
  result_type :: string
  host :: "string option"
  key_id :: "string option"
  secret_key :: "string option"
  bucket :: "string option"
  region :: "string option"
  connected :: bool

text \<open>
  The remote store itself is shared by every handle pointed at it: blobs under keys made
  of a namespace and a document id.
\<close>

type_synonym blob_store = "((string \<times> json) \<times> json) list"

text \<open>
  Modelled from the spec: the constructor of \<open>CephStore\<close> (module \<open>ceph\<close>), which keeps
  the result type as the namespace of the handle together with the connection options; no
  session exists until \<open>connect\<close>.
\<close>

definition CephStore_init ::
  "string \<Rightarrow> string option \<Rightarrow> string option \<Rightarrow> string option \<Rightarrow> string option \<Rightarrow>
   string option \<Rightarrow> CephStore" where
  "CephStore_init rt h k s b r =
     \<lparr>result_type = rt, host = h, key_id = k, secret_key = s, bucket = b, region = r,
      connected = False\<rparr>"

text \<open>
  Modelled from the spec: \<open>CephStore.connect\<close>, which establishes a session and fails
  with \<open>ConnectionError\<close> when the endpoint cannot be reached or refuses the credentials;
  \<open>reachable\<close> is the answer of the remote side.
\<close>

definition CephStore_connect :: "bool \<Rightarrow> CephStore \<Rightarrow> exception + CephStore" where
  "CephStore_connect reachable c =
     (if reachable then Inr (c\<lparr>connected := True\<rparr>) else Inl ConnectionError)"

text \<open>
  Modelled from the spec: \<open>CephStore.store_document\<close>, the \<open>put(namespace, key, bytes)\<close>
  of the blob-store boundary. It writes the document under the key composed of the
  handle's namespace and the document id and overwrites a blob already there; before
  \<open>connect\<close> it fails with \<open>NotConnectedError\<close>.
\<close>

definition CephStore_store_document ::
  "CephStore \<Rightarrow> blob_store \<Rightarrow> json \<Rightarrow> json \<Rightarrow> (exception + unit) \<times> blob_store" where
  "CephStore_store_document c store document document_id =
     (if connected c
      then (Inr (), AList.update (result_type c, document_id) document store)
      else (Inl NotConnectedError, store))"

text \<open>
  Modelled from the spec: \<open>CephStore.retrieve_document\<close>, the \<open>get(namespace, key)\<close> of
  the boundary; \<open>NotFoundError\<close> when no blob exists at the namespaced key.
\<close>

definition CephStore_retrieve_document ::
  "CephStore \<Rightarrow> blob_store \<Rightarrow> json \<Rightarrow> exception + json" where
  "CephStore_retrieve_document c store document_id =
     (if connected c
      then (case map_of store (result_type c, document_id) of
              None \<Rightarrow> Inl NotFoundError
            | Some document \<Rightarrow> Inr document)
      else Inl NotConnectedError)"

text \<open>
  Modelled from the spec: \<open>CephStore.document_exists\<close>, the \<open>exists(namespace, key)\<close> of
  the boundary: a pure existence check.
\<close>

definition CephStore_document_exists ::
  "CephStore \<Rightarrow> blob_store \<Rightarrow> json \<Rightarrow> exception + bool" where
  "CephStore_document_exists c store document_id =
     (if connected c
      then (case map_of store (result_type c, document_id) of
              None \<Rightarrow> Inr False
            | Some document \<Rightarrow> Inr True)
      else Inl NotConnectedError)"

text \<open>
  Modelled from the spec: \<open>CephStore.get_document_listing\<close>, the \<open>list(namespace)\<close> of
  the boundary: the ids under the handle's namespace, in the store's own order.
\<close>

definition CephStore_get_document_listing ::
  "CephStore \<Rightarrow> blob_store \<Rightarrow> exception + json list" where
  "CephStore_get_document_listing c store =
     (if connected c
      then Inr (map (\<lambda>e. snd (fst e)) (filter (\<lambda>e. fst (fst e) = result_type c) store))
      else Inl NotConnectedError)"

section \<open>\<open>ResultStorageBase\<close>\<close>

record ResultStorageBase =
  ceph :: CephStore

text \<open>
  The schema callable \<open>RESULT_SCHEMA\<close> lives in a module of its own; the adapter only
  calls it and looks at whether it raises. It is a parameter here: \<open>None\<close> when the call
  returns, \<open>Some exc\<close> when it raises \<open>exc\<close>.
\<close>

type_synonym schema = "json \<Rightarrow> exception option"

text \<open>
  \<open>__init__\<close>: the class attribute \<open>RESULT_TYPE\<close> is \<open>None\<close> unless a derived class
  sets it; the assertion comes first, then the \<open>CephStore\<close> is created with it.
\<close>

definition ResultStorageBase_init ::
  "string option \<Rightarrow> string option \<Rightarrow> string option \<Rightarrow> string option \<Rightarrow> string option \<Rightarrow>
   string option \<Rightarrow> exception + ResultStorageBase" where
  "ResultStorageBase_init RESULT_TYPE h k s b r =
     (case RESULT_TYPE of
        None \<Rightarrow>
          Inl (AssertionError
            ''Make sure you define RESULT_TYPE in derived classes to distinguish between adapter type instances.'')
      | Some rt \<Rightarrow> Inr \<lparr>ceph = CephStore_init rt h k s b r\<rparr>)"

text \<open>The build-log cache adapter fixes its result type.\<close>

definition BuildLogsAnalysesCacheStore_RESULT_TYPE :: "string option" where
  "BuildLogsAnalysesCacheStore_RESULT_TYPE = Some ''buildlogs-analysis-cache''"

definition get_document_id :: "json \<Rightarrow> exception + json" where
  "get_document_id document =
     (case getitem document ''metadata'' of
        Inl e \<Rightarrow> Inl e
      | Inr metadata \<Rightarrow> getitem metadata ''hostname'')"


definition connect :: "bool \<Rightarrow> ResultStorageBase \<Rightarrow> exception + ResultStorageBase" where
  "connect reachable self =
     (case CephStore_connect reachable (ceph self) of
        Inl e \<Rightarrow> Inl e
      | Inr c \<Rightarrow> Inr (self\<lparr>ceph := c\<rparr>))"

definition get_document_listing ::
  "ResultStorageBase \<Rightarrow> blob_store \<Rightarrow> exception + json list" where
  "get_document_listing self store = CephStore_get_document_listing (ceph self) store"

definition store_document ::
  "schema \<Rightarrow> ResultStorageBase \<Rightarrow> blob_store \<Rightarrow> json \<Rightarrow> (exception + json) \<times> blob_store" where
  "store_document RESULT_SCHEMA self store document =
     (case RESULT_SCHEMA document of
        Some exc \<Rightarrow> (Inl (SchemaError ''Failed to validate document schema'' exc), store)
      | None \<Rightarrow>
          (case get_document_id document of
             Inl e \<Rightarrow> (Inl e, store)
           | Inr document_id \<Rightarrow>
               (case CephStore_store_document (ceph self) store document document_id of
                  (Inl e, store') \<Rightarrow> (Inl e, store')
                | (Inr u, store') \<Rightarrow> (Inr document_id, store'))))"

definition retrieve_document ::
  "ResultStorageBase \<Rightarrow> blob_store \<Rightarrow> json \<Rightarrow> exception + json" where
  "retrieve_document self store document_id =
     CephStore_retrieve_document (ceph self) store document_id"

text \<open>
  Modelled from the spec: \<open>documentExists\<close> of the document-store contract, which the cache
  adapters offer on top of \<open>ResultStorageBase\<close> (module \<open>ceph_cache\<close>); it asks the
  adapter's own \<open>CephStore\<close>.
\<close>

definition document_exists ::
  "ResultStorageBase \<Rightarrow> blob_store \<Rightarrow> json \<Rightarrow> exception + bool" where
  "document_exists self store document_id =
     CephStore_document_exists (ceph self) store document_id"

text \<open>
  Two schemas for concrete runs: one that requires only a string at
  \<open>metadata.hostname\<close>, and one that lets every document pass.
\<close>

definition hostname_schema :: schema where
  "hostname_schema document =
     (case get_document_id document of
        Inr (JStr h) \<Rightarrow> None
      | _ \<Rightarrow> Some (Invalid ''required key not provided: metadata.hostname''))"

definition permissive_schema :: schema where
  "permissive_schema document = None"

text \<open>Adapters for concrete runs: two result types on one store, both connected.\<close>

definition solver_adapter :: ResultStorageBase where
  "solver_adapter =
     \<lparr>ceph = \<lparr>result_type = ''solver'', host = None, key_id = None, secret_key = None,
              bucket = None, region = None, connected = True\<rparr>\<rparr>"

definition buildlogs_adapter :: ResultStorageBase where
  "buildlogs_adapter =
     \<lparr>ceph = \<lparr>result_type = ''buildlogs-analysis-cache'', host = None, key_id = None,
              secret_key = None, bucket = None, region = None, connected = True\<rparr>\<rparr>"

definition pod_document :: json where
  "pod_document = JDict [(''metadata'', JDict [(''hostname'', JStr ''pod-abc123'')])]"

section \<open>Performance indicators: \<open>from_report\<close>\<close>










section \<open>The relational schema: the two package-version tables\<close>

text \<open>
  A column as the model declares it: its name, whether it may be \<open>NULL\<close>, whether it
  belongs to the primary key, and whether it is declared \<open>unique\<close> on its own.
\<close>

record column =
  column_name :: string
  nullable :: bool
  primary_key :: bool
  column_unique :: bool

text \<open>The entries of \<open>__table_args__\<close>.\<close>

datatype table_arg =
    UniqueConstraint "string list"
  | Index string "string list" bool

definition PythonPackageVersion_columns :: "column list" where
  "PythonPackageVersion_columns =
     [\<lparr>column_name = ''id'', nullable = False, primary_key = True, column_unique = False\<rparr>,
      \<lparr>column_name = ''package_name'', nullable = False, primary_key = False, column_unique = False\<rparr>,
      \<lparr>column_name = ''package_version'', nullable = True, primary_key = False, column_unique = False\<rparr>,
      \<lparr>column_name = ''os_name'', nullable = False, primary_key = False, column_unique = False\<rparr>,
      \<lparr>column_name = ''os_version'', nullable = False, primary_key = False, column_unique = False\<rparr>,
      \<lparr>column_name = ''python_version'', nullable = False, primary_key = False, column_unique = False\<rparr>,
      \<lparr>column_name = ''entity_id'', nullable = False, primary_key = False, column_unique = False\<rparr>,
      \<lparr>column_name = ''python_package_index_id'', nullable = True, primary_key = False,
       column_unique = False\<rparr>,
      \<lparr>column_name = ''python_package_metadata_id'', nullable = True, primary_key = False,
       column_unique = False\<rparr>]"

text \<open>
  \<open>get_python_package_version_index_combinations\<close> belongs to another module; the list
  it returns is a parameter.
\<close>

definition PythonPackageVersion_table_args :: "table_arg list \<Rightarrow> table_arg list" where
  "PythonPackageVersion_table_args index_combinations =
     index_combinations @
     [UniqueConstraint
        [''package_name'', ''package_version'', ''python_package_index_id'', ''os_name'',
         ''os_version'', ''python_version''],
      Index ''python_package_version_idx''
        [''package_name'', ''package_version'', ''python_package_index_id''] False]"

definition PythonPackageVersionEntity_columns :: "column list" where
  "PythonPackageVersionEntity_columns =
     [\<lparr>column_name = ''id'', nullable = False, primary_key = True, column_unique = True\<rparr>,
      \<lparr>column_name = ''package_name'', nullable = False, primary_key = False, column_unique = False\<rparr>,
      \<lparr>column_name = ''package_version'', nullable = True, primary_key = False, column_unique = False\<rparr>,
      \<lparr>column_name = ''python_package_index_id'', nullable = True, primary_key = False,
       column_unique = False\<rparr>]"

definition PythonPackageVersionEntity_table_args :: "table_arg list" where
  "PythonPackageVersionEntity_table_args =
     [UniqueConstraint [''package_name'', ''package_version'', ''python_package_index_id''],
      Index ''python_package_version_entity_idx''
        [''package_name'', ''package_version'', ''python_package_index_id''] True]"

text \<open>The two de-duplication keys.\<close>

definition package_version_key :: "string list" where
  "package_version_key =
     [''package_name'', ''package_version'', ''python_package_index_id'', ''os_name'',
      ''os_version'', ''python_version'']"

definition entity_key :: "string list" where
  "entity_key = [''package_name'', ''package_version'', ''python_package_index_id'']"

text \<open>
  Rows and what the database enforces for the declarations. A row gives each column a
  value or \<open>NULL\<close> (\<open>None\<close>). Under SQL's \<open>UNIQUE\<close> two rows collide on a list of columns
  when every one of the columns is non-\<open>NULL\<close> and equal in both: \<open>NULL\<close> is never equal
  to \<open>NULL\<close>, so rows with a \<open>NULL\<close> in the key do not collide.
\<close>

datatype sql_value = IntValue int | StrValue string

type_synonym row = "string \<Rightarrow> sql_value option"

definition collide :: "string list \<Rightarrow> row \<Rightarrow> row \<Rightarrow> bool" where
  "collide cols r r' =
     list_all (\<lambda>c. case r c of None \<Rightarrow> False | Some v \<Rightarrow> r' c = Some v) cols"

fun unique_holds :: "string list \<Rightarrow> row list \<Rightarrow> bool" where
  "unique_holds cols [] = True"
| "unique_holds cols (r # rows) = (\<not> list_ex (collide cols r) rows \<and> unique_holds cols rows)"

fun satisfies :: "row list \<Rightarrow> table_arg \<Rightarrow> bool" where
  "satisfies rows (UniqueConstraint cols) = unique_holds cols rows"
| "satisfies rows (Index n cols uniq) = (if uniq then unique_holds cols rows else True)"

definition not_null_holds :: "column list \<Rightarrow> row list \<Rightarrow> bool" where
  "not_null_holds cols rows =
     list_all (\<lambda>r. list_all (\<lambda>c. nullable c \<or> r (column_name c) \<noteq> None) cols) rows"

definition table_valid :: "column list \<Rightarrow> table_arg list \<Rightarrow> row list \<Rightarrow> bool" where
  "table_valid cols args rows =
     (not_null_holds cols rows \<and>
      unique_holds (map column_name (filter primary_key cols)) rows \<and>
      list_all (\<lambda>c. unique_holds [column_name c] rows) (filter column_unique cols) \<and>
      list_all (satisfies rows) args)"

text \<open>Rows for concrete runs.\<close>

definition entity_row :: "int \<Rightarrow> string \<Rightarrow> string option \<Rightarrow> int option \<Rightarrow> row" where
  "entity_row i n v ix =
     (\<lambda>c. if c = ''id'' then Some (IntValue i)
          else if c = ''package_name'' then Some (StrValue n)
          else if c = ''package_version'' then map_option StrValue v
          else if c = ''python_package_index_id'' then map_option IntValue ix
          else None)"

definition version_row :: "int \<Rightarrow> string \<Rightarrow> string option \<Rightarrow> int option \<Rightarrow> string \<Rightarrow> row" where
  "version_row i n v ix os =
     (\<lambda>c. if c = ''id'' then Some (IntValue i)
          else if c = ''package_name'' then Some (StrValue n)
          else if c = ''package_version'' then map_option StrValue v
          else if c = ''python_package_index_id'' then map_option IntValue ix
          else if c = ''os_name'' then Some (StrValue os)
          else if c = ''os_version'' then Some (StrValue ''31'')
          else if c = ''python_version'' then Some (StrValue ''3.7'')
          else if c = ''entity_id'' then Some (IntValue 1)
          else None)"

section \<open>Schema migrations\<close>
























section \<open>Properties of the document store\<close>

lemma filter_update_other:
  "fst k \<noteq> ns \<Longrightarrow>
   filter (\<lambda>e. fst (fst e) = ns) (AList.update k v al) = filter (\<lambda>e. fst (fst e) = ns) al"
  by (induction al) auto

lemma get_document_id_pod: "get_document_id pod_document = Inr (JStr ''pod-abc123'')"
  by (simp add: get_document_id_def pod_document_def)

lemma hostname_schema_pod: "hostname_schema pod_document = None"
  by (simp add: hostname_schema_def get_document_id_pod)

lemma hostname_schema_empty:
  "hostname_schema (JDict []) = Some (Invalid ''required key not provided: metadata.hostname'')"
  by (simp add: hostname_schema_def get_document_id_def)

text \<open>
  Claim C1. A document that fails the schema makes \<open>store_document\<close> raise the schema
  error (\<open>SchemaError\<close> in the code) with the validation failure as its cause, and the
  blob store is the one it was before the call: the failure is raised before any write.
\<close>

theorem store_document_validation_gate:
  "RESULT_SCHEMA document = Some exc \<Longrightarrow>
   store_document RESULT_SCHEMA self store document =
     (Inl (SchemaError ''Failed to validate document schema'' exc), store)"
  by (simp add: store_document_def)

theorem store_document_validation_gate_witness:
  "hostname_schema (JDict []) = Some (Invalid ''required key not provided: metadata.hostname'') \<and>
   store_document hostname_schema solver_adapter [((''solver'', JStr ''a''), JNull)] (JDict []) =
     (Inl (SchemaError ''Failed to validate document schema''
            (Invalid ''required key not provided: metadata.hostname'')),
      [((''solver'', JStr ''a''), JNull)])"
  using store_document_validation_gate
    [of hostname_schema "JDict []" "Invalid ''required key not provided: metadata.hostname''"
        solver_adapter "[((''solver'', JStr ''a''), JNull)]"]
  by (simp add: hostname_schema_empty)

text \<open>
  Claim C2. The document id is a function of the document alone: whenever
  \<open>store_document\<close> returns an id, under any schema, through any adapter and on any
  contents of the blob store, it is the id \<open>get_document_id\<close> derives from the document,
  so two runs on the same document give the same id.
\<close>

theorem document_id_deterministic:
  "fst (store_document schema1 self1 store1 document) = Inr id1 \<Longrightarrow>
   fst (store_document schema2 self2 store2 document) = Inr id2 \<Longrightarrow>
   get_document_id document = Inr id1 \<and> id1 = id2"
  by (auto simp: store_document_def CephStore_store_document_def
      split: option.splits sum.splits if_splits)

theorem document_id_deterministic_witness:
  "fst (store_document hostname_schema solver_adapter [] pod_document) = Inr (JStr ''pod-abc123'') \<and>
   fst (store_document permissive_schema buildlogs_adapter
         [((''buildlogs-analysis-cache'', JStr ''pod-abc123''), JNull)] pod_document) =
     Inr (JStr ''pod-abc123'') \<and>
   get_document_id pod_document = Inr (JStr ''pod-abc123'')"
proof -
  have a: "fst (store_document hostname_schema solver_adapter [] pod_document) =
      Inr (JStr ''pod-abc123'')"
    by (simp add: store_document_def hostname_schema_pod get_document_id_pod
        CephStore_store_document_def solver_adapter_def)
  have b: "fst (store_document permissive_schema buildlogs_adapter
         [((''buildlogs-analysis-cache'', JStr ''pod-abc123''), JNull)] pod_document) =
     Inr (JStr ''pod-abc123'')"
    by (simp add: store_document_def permissive_schema_def get_document_id_pod
        CephStore_store_document_def buildlogs_adapter_def)
  from document_id_deterministic [OF a b] a b show ?thesis by simp
qed

text \<open>
  Claim C3, as the code has it. A document that passes the schema but from which
  \<open>metadata.hostname\<close> cannot be read makes \<open>store_document\<close> fail before any write to
  the blob store, with the built-in error of the failed lookup: \<open>KeyError\<close> for a missing
  \<open>metadata\<close> or \<open>hostname\<close> key, \<open>TypeError\<close> when the document or its \<open>metadata\<close>
  is not a dict. The code has no dedicated malformed-document error.
\<close>

theorem store_document_missing_hostname:
  "RESULT_SCHEMA document = None \<Longrightarrow> get_document_id document = Inl e \<Longrightarrow>
   store_document RESULT_SCHEMA self store document = (Inl e, store) \<and>
   (e = KeyError ''metadata'' \<or> e = KeyError ''hostname'' \<or> e = TypeError)"
proof -
  assume ok: "RESULT_SCHEMA document = None" and e: "get_document_id document = Inl e"
  have kind: "e = KeyError ''metadata'' \<or> e = KeyError ''hostname'' \<or> e = TypeError"
  proof (cases "getitem document ''metadata''")
    case (Inl e')
    with e have "e' = e" by (simp add: get_document_id_def)
    with Inl show ?thesis by (cases document) (auto split: option.splits)
  next
    case (Inr metadata)
    with e have "getitem metadata ''hostname'' = Inl e" by (simp add: get_document_id_def)
    then show ?thesis by (cases metadata) (auto split: option.splits)
  qed
  from ok e have "store_document RESULT_SCHEMA self store document = (Inl e, store)"
    by (simp add: store_document_def)
  with kind show ?thesis by simp
qed

theorem store_document_missing_hostname_witness:
  "permissive_schema (JDict [(''metadata'', JDict [])]) = None \<and>
   get_document_id (JDict [(''metadata'', JDict [])]) = Inl (KeyError ''hostname'') \<and>
   store_document permissive_schema solver_adapter [] (JDict [(''metadata'', JDict [])]) =
     (Inl (KeyError ''hostname''), [])"
  using store_document_missing_hostname
    [of permissive_schema "JDict [(''metadata'', JDict [])]" "KeyError ''hostname''"
        solver_adapter "[]"]
  by (simp add: permissive_schema_def get_document_id_def)

text \<open>
  Claim C3, as stated, fails: the document \<open>{}\<close> passes a schema that lets it through,
  and \<open>store_document\<close> raises \<open>KeyError('metadata')\<close>, whose class is not
  \<open>MalformedDocumentError\<close>.
\<close>

theorem store_document_no_malformed_document_error:
  "permissive_schema (JDict []) = None \<and>
   store_document permissive_schema solver_adapter [] (JDict []) = (Inl (KeyError ''metadata''), []) \<and>
   exception_name (KeyError ''metadata'') \<noteq> ''MalformedDocumentError''"
  by (simp add: permissive_schema_def store_document_def get_document_id_def)

text \<open>
  Claim C4. Storing the same document twice gives the same outcome both times (the same
  document id when the first call returns one) and leaves the blob store as the first call
  left it; the blob at the namespaced key of the returned id is the document.
\<close>

theorem store_document_idempotent:
  "store_document RESULT_SCHEMA self (snd (store_document RESULT_SCHEMA self store document))
     document =
     store_document RESULT_SCHEMA self store document \<and>
   (fst (store_document RESULT_SCHEMA self store document) = Inr document_id \<longrightarrow>
    map_of (snd (store_document RESULT_SCHEMA self store document))
      (result_type (ceph self), document_id) = Some document)"
  by (auto simp: store_document_def CephStore_store_document_def update_conv'
      split: option.splits sum.splits)

theorem store_document_idempotent_witness:
  "store_document hostname_schema solver_adapter [] pod_document =
     (Inr (JStr ''pod-abc123''), [((''solver'', JStr ''pod-abc123''), pod_document)]) \<and>
   store_document hostname_schema solver_adapter
     [((''solver'', JStr ''pod-abc123''), pod_document)] pod_document =
     (Inr (JStr ''pod-abc123''), [((''solver'', JStr ''pod-abc123''), pod_document)])"
proof -
  have a: "store_document hostname_schema solver_adapter [] pod_document =
     (Inr (JStr ''pod-abc123''), [((''solver'', JStr ''pod-abc123''), pod_document)])"
    by (simp add: store_document_def hostname_schema_pod get_document_id_pod
        CephStore_store_document_def solver_adapter_def)
  from store_document_idempotent [of hostname_schema solver_adapter "[]" pod_document] a
  show ?thesis by simp
qed



text \<open>
  Claim C6. Two adapters with different result types on one store: whatever the first
  stores, the second observes what it observed before, be it through
  \<open>retrieve_document\<close>, \<open>document_exists\<close> or the listing, for every document id.
\<close>

theorem namespace_isolation:
  "result_type (ceph A) \<noteq> result_type (ceph B) \<Longrightarrow>
   retrieve_document B (snd (store_document RESULT_SCHEMA A store document)) document_id =
     retrieve_document B store document_id \<and>
   document_exists B (snd (store_document RESULT_SCHEMA A store document)) document_id =
     document_exists B store document_id \<and>
   get_document_listing B (snd (store_document RESULT_SCHEMA A store document)) =
     get_document_listing B store"
  by (auto simp: store_document_def CephStore_store_document_def document_exists_def
      retrieve_document_def CephStore_document_exists_def CephStore_retrieve_document_def
      update_conv' get_document_listing_def CephStore_get_document_listing_def
      filter_update_other split: option.splits sum.splits)

theorem namespace_isolation_witness:
  "result_type (ceph buildlogs_adapter) \<noteq> result_type (ceph solver_adapter) \<and>
   fst (store_document hostname_schema buildlogs_adapter [] pod_document) =
     Inr (JStr ''pod-abc123'') \<and>
   retrieve_document solver_adapter
     (snd (store_document hostname_schema buildlogs_adapter [] pod_document))
     (JStr ''pod-abc123'') = Inl NotFoundError \<and>
   document_exists solver_adapter
     (snd (store_document hostname_schema buildlogs_adapter [] pod_document))
     (JStr ''pod-abc123'') = Inr False \<and>
   get_document_listing solver_adapter
     (snd (store_document hostname_schema buildlogs_adapter [] pod_document)) = Inr []"
proof -
  have ne: "result_type (ceph buildlogs_adapter) \<noteq> result_type (ceph solver_adapter)"
    by (simp add: buildlogs_adapter_def solver_adapter_def)
  have a: "fst (store_document hostname_schema buildlogs_adapter [] pod_document) =
     Inr (JStr ''pod-abc123'')"
    by (simp add: store_document_def hostname_schema_pod get_document_id_pod
        CephStore_store_document_def buildlogs_adapter_def)
  have b: "retrieve_document solver_adapter [] (JStr ''pod-abc123'') = Inl NotFoundError"
    "document_exists solver_adapter [] (JStr ''pod-abc123'') = Inr False"
    "get_document_listing solver_adapter [] = Inr []"
    by (simp_all add: retrieve_document_def CephStore_retrieve_document_def document_exists_def
        CephStore_document_exists_def get_document_listing_def
        CephStore_get_document_listing_def solver_adapter_def)
  from namespace_isolation [OF ne, of hostname_schema "[]" pod_document "JStr ''pod-abc123''"]
    ne a b
  show ?thesis by simp
qed

text \<open>
  Claim C10. With \<open>RESULT_TYPE\<close> left at \<open>None\<close> the constructor fails with the
  assertion error and builds no \<open>CephStore\<close>; an adapter that was constructed has a
  \<open>RESULT_TYPE\<close> other than \<open>None\<close>, and it is the namespace its \<open>CephStore\<close> was given.
\<close>

theorem init_requires_result_type:
  "ResultStorageBase_init None h k s b r =
     Inl (AssertionError
       ''Make sure you define RESULT_TYPE in derived classes to distinguish between adapter type instances.'') \<and>
   (ResultStorageBase_init RESULT_TYPE h k s b r = Inr self \<longrightarrow>
    RESULT_TYPE = Some (result_type (ceph self)) \<and> ceph self = CephStore_init (result_type (ceph self)) h k s b r)"
  by (auto simp: ResultStorageBase_init_def CephStore_init_def split: option.splits)

theorem init_requires_result_type_witness:
  "ResultStorageBase_init BuildLogsAnalysesCacheStore_RESULT_TYPE None None None None None =
     Inr \<lparr>ceph = CephStore_init ''buildlogs-analysis-cache'' None None None None None\<rparr> \<and>
   BuildLogsAnalysesCacheStore_RESULT_TYPE = Some ''buildlogs-analysis-cache''"
proof -
  have a: "ResultStorageBase_init BuildLogsAnalysesCacheStore_RESULT_TYPE None None None None None =
     Inr \<lparr>ceph = CephStore_init ''buildlogs-analysis-cache'' None None None None None\<rparr>"
    by (simp add: ResultStorageBase_init_def BuildLogsAnalysesCacheStore_RESULT_TYPE_def)
  from init_requires_result_type
    [of None None None None None BuildLogsAnalysesCacheStore_RESULT_TYPE
        "\<lparr>ceph = CephStore_init ''buildlogs-analysis-cache'' None None None None None\<rparr>"] a
  show ?thesis by (simp add: CephStore_init_def)
qed

section \<open>Properties of \<open>from_report\<close>\<close>








section \<open>Properties of the relational schema\<close>

lemma collide_iff:
  "collide cols r r' \<longleftrightarrow> list_all (\<lambda>c. r c \<noteq> None) cols \<and> map r cols = map r' cols"
  by (induction cols) (auto simp: collide_def split: option.splits)

lemma unique_holds_nth:
  "unique_holds cols rows \<Longrightarrow> i < j \<Longrightarrow> j < length rows \<Longrightarrow>
   \<not> collide cols (rows ! i) (rows ! j)"
proof (induction rows arbitrary: i j)
  case Nil
  then show ?case by simp
next
  case (Cons r rows)
  show ?case
  proof (cases i)
    case 0
    with Cons.prems obtain j' where j: "j = Suc j'" "j' < length rows" by (cases j) auto
    with Cons.prems 0 show ?thesis by (auto simp: list_ex_iff)
  next
    case (Suc i')
    with Cons.prems obtain j' where j: "j = Suc j'" "j' < length rows" "i' < j'"
      by (cases j) auto
    with Cons.prems Suc Cons.IH [of i' j'] show ?thesis by simp
  qed
qed

lemma unique_constraint_enforced:
  assumes "table_valid cols args rs" and "UniqueConstraint key \<in> set args"
    and "m < n" and "n < length rs"
  shows "\<not> (list_all (\<lambda>c. (rs ! m) c \<noteq> None) key \<and> map (rs ! m) key = map (rs ! n) key)"
proof -
  from assms(1,2) have "unique_holds key rs"
    by (auto simp: table_valid_def list_all_iff)
  from unique_holds_nth [OF this assms(3,4)] show ?thesis by (simp add: collide_iff)
qed

text \<open>
  Claim C8, as the code has it. Each table declares the uniqueness constraint on exactly
  its key tuple, whatever the index combinations are; in a table that satisfies its
  declarations no two rows agree on the tuple when the columns of the tuple are all
  non-\<open>NULL\<close> in the earlier row.
\<close>

theorem unique_constraints_declared_and_enforced:
  "UniqueConstraint package_version_key \<in> set (PythonPackageVersion_table_args combos) \<and>
   UniqueConstraint entity_key \<in> set PythonPackageVersionEntity_table_args \<and>
   (table_valid PythonPackageVersion_columns (PythonPackageVersion_table_args combos) rows \<longrightarrow>
      i < j \<longrightarrow> j < length rows \<longrightarrow>
      list_all (\<lambda>c. (rows ! i) c \<noteq> None) package_version_key \<longrightarrow>
      map (rows ! i) package_version_key \<noteq> map (rows ! j) package_version_key) \<and>
   (table_valid PythonPackageVersionEntity_columns PythonPackageVersionEntity_table_args rows' \<longrightarrow>
      i' < j' \<longrightarrow> j' < length rows' \<longrightarrow>
      list_all (\<lambda>c. (rows' ! i') c \<noteq> None) entity_key \<longrightarrow>
      map (rows' ! i') entity_key \<noteq> map (rows' ! j') entity_key)"
proof -
  have a: "UniqueConstraint package_version_key \<in> set (PythonPackageVersion_table_args combos)"
    by (simp add: PythonPackageVersion_table_args_def package_version_key_def)
  have b: "UniqueConstraint entity_key \<in> set PythonPackageVersionEntity_table_args"
    by (simp add: PythonPackageVersionEntity_table_args_def entity_key_def)
  show ?thesis
    using a b unique_constraint_enforced [OF _ a] unique_constraint_enforced [OF _ b]
    by blast
qed

theorem unique_constraints_declared_and_enforced_witness:
  "table_valid PythonPackageVersion_columns (PythonPackageVersion_table_args [])
     [version_row 1 ''flask'' (Some ''1.0'') (Some 1) ''fedora'',
      version_row 2 ''flask'' (Some ''1.0'') (Some 1) ''rhel''] \<and>
   map (version_row 1 ''flask'' (Some ''1.0'') (Some 1) ''fedora'') package_version_key \<noteq>
   map (version_row 2 ''flask'' (Some ''1.0'') (Some 1) ''rhel'') package_version_key \<and>
   table_valid PythonPackageVersionEntity_columns PythonPackageVersionEntity_table_args
     [entity_row 1 ''flask'' (Some ''1.0'') (Some 1), entity_row 2 ''flask'' (Some ''1.1'') (Some 1)] \<and>
   map (entity_row 1 ''flask'' (Some ''1.0'') (Some 1)) entity_key \<noteq>
   map (entity_row 2 ''flask'' (Some ''1.1'') (Some 1)) entity_key"
proof -
  have v: "table_valid PythonPackageVersion_columns (PythonPackageVersion_table_args [])
     [version_row 1 ''flask'' (Some ''1.0'') (Some 1) ''fedora'',
      version_row 2 ''flask'' (Some ''1.0'') (Some 1) ''rhel'']"
    by (simp add: table_valid_def not_null_holds_def PythonPackageVersion_columns_def
        PythonPackageVersion_table_args_def version_row_def collide_def)
  have e: "table_valid PythonPackageVersionEntity_columns PythonPackageVersionEntity_table_args
     [entity_row 1 ''flask'' (Some ''1.0'') (Some 1), entity_row 2 ''flask'' (Some ''1.1'') (Some 1)]"
    by (simp add: table_valid_def not_null_holds_def PythonPackageVersionEntity_columns_def
        PythonPackageVersionEntity_table_args_def entity_row_def collide_def)
  have nv: "list_all (\<lambda>c. (version_row 1 ''flask'' (Some ''1.0'') (Some 1) ''fedora'') c \<noteq> None)
     package_version_key"
    by (simp add: version_row_def package_version_key_def)
  have ne: "list_all (\<lambda>c. (entity_row 1 ''flask'' (Some ''1.0'') (Some 1)) c \<noteq> None) entity_key"
    by (simp add: entity_row_def entity_key_def)
  from unique_constraints_declared_and_enforced
    [of "[]" "[version_row 1 ''flask'' (Some ''1.0'') (Some 1) ''fedora'',
      version_row 2 ''flask'' (Some ''1.0'') (Some 1) ''rhel'']" 0 1
      "[entity_row 1 ''flask'' (Some ''1.0'') (Some 1), entity_row 2 ''flask'' (Some ''1.1'') (Some 1)]"
      0 1] v e nv ne
  show ?thesis by simp
qed

text \<open>
  Claim C8, as stated, fails: two rows of the entity table for the same package name,
  with \<open>NULL\<close> version and \<open>NULL\<close> index, satisfy every declaration of the table and agree
  on the key tuple.
\<close>

theorem unique_constraint_admits_null_duplicates:
  "table_valid PythonPackageVersionEntity_columns PythonPackageVersionEntity_table_args
     [entity_row 1 ''flask'' None None, entity_row 2 ''flask'' None None] \<and>
   map (entity_row 1 ''flask'' None None) entity_key =
   map (entity_row 2 ''flask'' None None) entity_key"
  by (simp add: table_valid_def not_null_holds_def PythonPackageVersionEntity_columns_def
      PythonPackageVersionEntity_table_args_def entity_row_def entity_key_def collide_def)

section \<open>Properties of the migrations\<close>














end
